theory Spec2Isabelle
  imports Main
begin

section \<open>Strings\<close>

text \<open>
  Identifiers are modelled as \<^typ>\<open>string\<close>, one \<^typ>\<open>char\<close> per character. The
  identifiers of the legacy files are SBML identifiers (ASCII letters, digits and the
  underscore), so upper and lower case are the ASCII letter tables; every other
  character is left as it is, which is what Python's \<^verbatim>\<open>str.upper\<close> and
  \<^verbatim>\<open>str.lower\<close> do on the ASCII range. Outside that range Python folds further
  letters (\<^verbatim>\<open>str.capitalize\<close> lower-cases an accented capital too), which these
  tables do not: a statement about the case folding of an identifier holds for ASCII
  identifiers, and says so with \<open>is_ascii\<close>.
\<close>

definition is_ascii :: "string \<Rightarrow> bool" where
  "is_ascii s = list_all (\<lambda>c. \<not> digit7 c) s"

definition upper_char :: "char \<Rightarrow> char" where
  "upper_char c =
     (case map_of (zip ''abcdefghijklmnopqrstuvwxyz'' ''ABCDEFGHIJKLMNOPQRSTUVWXYZ'') c of
        Some u \<Rightarrow> u
      | None \<Rightarrow> c)"

definition lower_char :: "char \<Rightarrow> char" where
  "lower_char c =
     (case map_of (zip ''ABCDEFGHIJKLMNOPQRSTUVWXYZ'' ''abcdefghijklmnopqrstuvwxyz'') c of
        Some l \<Rightarrow> l
      | None \<Rightarrow> c)"

text \<open>
  \<^verbatim>\<open>str.capitalize()\<close>: the first character in upper case, every following
  character in lower case.
\<close>

fun capitalize :: "string \<Rightarrow> string" where
  "capitalize [] = []"
| "capitalize (c # cs) = upper_char c # map lower_char cs"

text \<open>\<^verbatim>\<open>s.startswith(p)\<close> and \<^verbatim>\<open>s.endswith(p)\<close>.\<close>

definition startswith :: "string \<Rightarrow> string \<Rightarrow> bool" where
  "startswith s p = (take (length p) s = p)"

definition endswith :: "string \<Rightarrow> string \<Rightarrow> bool" where
  "endswith s p = (length p \<le> length s \<and> drop (length s - length p) s = p)"


section \<open>The name normalizer\<close>

text \<open>
  \<^verbatim>\<open>
  def metabolite_name(old_name):
      if not old_name.startswith('m_'): return old_name
      if old_name.endswith('_xt'):
          return old_name[:-3].capitalize() + '_e'
      else:
          return old_name.capitalize() + '_c'
  \<close>
  The slice \<^verbatim>\<open>old_name[:-3]\<close> drops the last three characters (and is empty for a
  string shorter than three), which is \<open>take (length old_name - 3) old_name\<close> with the
  truncating subtraction of \<^typ>\<open>nat\<close>.
\<close>

definition metabolite_name :: "string \<Rightarrow> string" where
  "metabolite_name old_name =
     (if \<not> startswith old_name ''m_'' then old_name
      else if endswith old_name ''_xt''
        then capitalize (take (length old_name - 3) old_name) @ ''_e''
        else capitalize old_name @ ''_c'')"

text \<open>
  Two identifiers differ only in letter case after their first character: the first
  characters are equal, and the remaining characters agree once folded to lower case.
\<close>

definition differ_only_in_case :: "string \<Rightarrow> string \<Rightarrow> bool" where
  "differ_only_in_case s t =
     (case (s, t) of
        ([], []) \<Rightarrow> True
      | (c # cs, d # ds) \<Rightarrow> c = d \<and> map lower_char cs = map lower_char ds
      | _ \<Rightarrow> False)"


section \<open>XML elements\<close>

text \<open>
  An element of the XML tree: its tag, its attributes and its child elements in document
  order. \<^verbatim>\<open>node.get(key)\<close> is the attribute or \<^verbatim>\<open>None\<close>.
  \<^verbatim>\<open>node.findall(path)\<close> takes a path of tags separated by \<^verbatim>\<open>/\<close>, given here
  as the list of its steps, and returns the matching descendants in document order.
\<close>

datatype xml_node = Element (tag: string) (attrib: "(string \<times> string) list") (children: "xml_node list")

definition get :: "xml_node \<Rightarrow> string \<Rightarrow> string option" where
  "get node key = map_of (attrib node) key"

fun findall :: "xml_node \<Rightarrow> string list \<Rightarrow> xml_node list" where
  "findall node [] = [node]"
| "findall node (step # path) =
     concat (map (\<lambda>c. findall c path) (filter (\<lambda>c. tag c = step) (children node)))"


section \<open>The parameter registry and the value resolver\<close>

datatype function_reference = FunctionReference (function_name: "string option")

record rba_aggregate =
  aggregate_id :: string
  aggregate_type :: string
  function_references :: "function_reference list"

text \<open>
  Of the parameters section, the converter's own code reads and writes the aggregate
  collection only.
\<close>

record rba_parameters =
  aggregates :: "rba_aggregate list"

text \<open>
  Modelled from the spec: the constructor \<^verbatim>\<open>rba_xml.Aggregate(id, type)\<close> is not part
  of the sources. A new aggregate is "a named, operator-tagged collection of function
  references" and starts with no reference: \<^verbatim>\<open>read_value\<close> appends them one by one.
\<close>

definition Aggregate :: "string \<Rightarrow> string \<Rightarrow> rba_aggregate" where
  "Aggregate ident operator = \<lparr>aggregate_id = ident, aggregate_type = operator, function_references = []\<rparr>"

text \<open>
  \<^verbatim>\<open>
  def read_value(node, aggregate_name, parameters):
      value = node.get('value')
      if value is not None: return value
      fn_refs = node.findall('functionReference')
      if len(fn_refs) == 1: return fn_refs[0].get('function')
      new_agg = rba_xml.Aggregate(aggregate_name, 'multiplication')
      for ref in fn_refs:
          new_ref = rba_xml.FunctionReference(ref.get('function'))
          new_agg.function_references.append(new_ref)
      parameters.aggregates.append(new_agg)
      return aggregate_name
  \<close>
  The function returns a string or \<^verbatim>\<open>None\<close> (a \<^verbatim>\<open>functionReference\<close> without a
  \<^verbatim>\<open>function\<close> attribute), and mutates \<^verbatim>\<open>parameters\<close>: the model returns the
  registry after the call beside the value.
\<close>

definition read_value :: "xml_node \<Rightarrow> string \<Rightarrow> rba_parameters \<Rightarrow> string option \<times> rba_parameters" where
  "read_value node aggregate_name parameters =
     (case get node ''value'' of
        Some v \<Rightarrow> (Some v, parameters)
      | None \<Rightarrow>
          (let fn_refs = findall node [''functionReference''] in
           if length fn_refs = 1 then (get (fn_refs ! 0) ''function'', parameters)
           else
             (let new_agg =
                    fold (\<lambda>ref agg. agg\<lparr>function_references :=
                                          function_references agg @ [FunctionReference (get ref ''function'')]\<rparr>)
                      fn_refs (Aggregate aggregate_name ''multiplication'')
              in (Some aggregate_name, parameters\<lparr>aggregates := aggregates parameters @ [new_agg]\<rparr>))))"


section \<open>Targets of a process\<close>

text \<open>
  The exceptions of the readers: \<^verbatim>\<open>TypeError\<close> when \<^verbatim>\<open>None\<close> is concatenated
  with a string (an element without the attribute that names it), and
  \<^verbatim>\<open>AttributeError\<close> when a method is called on the \<^verbatim>\<open>None\<close> that
  \<^verbatim>\<open>find\<close> returns for a missing child.
\<close>

datatype error = TypeError | AttributeError

record rba_target_species =
  ts_species :: string
  ts_value :: "string option"
  ts_lower_bound :: "string option"
  ts_upper_bound :: "string option"

record rba_target_reaction =
  tr_reaction :: string
  tr_value :: "string option"
  tr_lower_bound :: "string option"
  tr_upper_bound :: "string option"

record rba_targets =
  concentrations :: "rba_target_species list"
  production_fluxes :: "rba_target_species list"
  degradation_fluxes :: "rba_target_species list"
  reaction_fluxes :: "rba_target_reaction list"

text \<open>
  Modelled from the spec: the constructors \<^verbatim>\<open>rba_xml.TargetSpecies(species)\<close> and
  \<^verbatim>\<open>rba_xml.TargetReaction(reaction)\<close> are not part of the sources. A new target
  names its species or reaction; its value and bounds are unset until the converter
  assigns them.
\<close>

definition TargetSpecies :: "string \<Rightarrow> rba_target_species" where
  "TargetSpecies sp = \<lparr>ts_species = sp, ts_value = None, ts_lower_bound = None, ts_upper_bound = None\<rparr>"

definition TargetReaction :: "string \<Rightarrow> rba_target_reaction" where
  "TargetReaction r = \<lparr>tr_reaction = r, tr_value = None, tr_lower_bound = None, tr_upper_bound = None\<rparr>"

text \<open>
  The body of the loop over \<^verbatim>\<open>targets/targetValue\<close> in \<^verbatim>\<open>read_processes\<close>:
  \<^verbatim>\<open>
  new_t = rba_xml.TargetSpecies(t.get('species'))
  new_t.value = read_value(t, t.get('species') + '_concentration', parameters)
  if t.get('degradation') == '1':
      new_p.targets.degradation_fluxes.append(new_t)
  elif t.get('dilution_compensation') == '0':
      new_p.targets.production_fluxes.append(new_t)
  else:
      new_p.targets.concentrations.append(new_t)
  \<close>
  The state is the targets of the process being built and the parameter registry.
  Without a \<^verbatim>\<open>species\<close> attribute, \<^verbatim>\<open>None + '_concentration'\<close> raises
  \<^verbatim>\<open>TypeError\<close>.
\<close>

definition read_target_value :: "xml_node \<Rightarrow> rba_targets \<times> rba_parameters \<Rightarrow> error + rba_targets \<times> rba_parameters" where
  "read_target_value t st =
     (case st of (tg, parameters) \<Rightarrow>
        (case get t ''species'' of
           None \<Rightarrow> Inl TypeError
         | Some sp \<Rightarrow>
             (case read_value t (sp @ ''_concentration'') parameters of (v, parameters') \<Rightarrow>
                (let new_t = (TargetSpecies sp)\<lparr>ts_value := v\<rparr> in
                 if get t ''degradation'' = Some ''1''
                   then Inr (tg\<lparr>degradation_fluxes := degradation_fluxes tg @ [new_t]\<rparr>, parameters')
                 else if get t ''dilution_compensation'' = Some ''0''
                   then Inr (tg\<lparr>production_fluxes := production_fluxes tg @ [new_t]\<rparr>, parameters')
                 else Inr (tg\<lparr>concentrations := concentrations tg @ [new_t]\<rparr>, parameters')))))"

text \<open>
  The body of the loop over \<^verbatim>\<open>targets/targetReaction\<close>:
  \<^verbatim>\<open>
  new_t = rba_xml.TargetReaction(t.get('reaction'))
  new_t.value = read_value(t, t.get('reaction') + '_flux', parameters)
  new_p.targets.reaction_fluxes.append(new_t)
  \<close>
\<close>

definition read_target_reaction :: "xml_node \<Rightarrow> rba_targets \<times> rba_parameters \<Rightarrow> error + rba_targets \<times> rba_parameters" where
  "read_target_reaction t st =
     (case st of (tg, parameters) \<Rightarrow>
        (case get t ''reaction'' of
           None \<Rightarrow> Inl TypeError
         | Some r \<Rightarrow>
             (case read_value t (r @ ''_flux'') parameters of (v, parameters') \<Rightarrow>
                (let new_t = (TargetReaction r)\<lparr>tr_value := v\<rparr> in
                 Inr (tg\<lparr>reaction_fluxes := reaction_fluxes tg @ [new_t]\<rparr>, parameters')))))"

text \<open>A \<^verbatim>\<open>for\<close> loop whose body may raise: the first error ends it.\<close>

fun for_each :: "('a \<Rightarrow> 's \<Rightarrow> error + 's) \<Rightarrow> 'a list \<Rightarrow> 's \<Rightarrow> error + 's" where
  "for_each body [] st = Inr st"
| "for_each body (x # xs) st =
     (case body x st of Inl e \<Rightarrow> Inl e | Inr st' \<Rightarrow> for_each body xs st')"

text \<open>The two target loops of \<^verbatim>\<open>read_processes\<close> for one process element \<open>p\<close>.\<close>

definition read_targets :: "xml_node \<Rightarrow> rba_targets \<times> rba_parameters \<Rightarrow> error + rba_targets \<times> rba_parameters" where
  "read_targets p st =
     (case for_each read_target_value (findall p [''targets'', ''targetValue'']) st of
        Inl e \<Rightarrow> Inl e
      | Inr st' \<Rightarrow> for_each read_target_reaction (findall p [''targets'', ''targetReaction'']) st')"


section \<open>The assembled model\<close>

text \<open>
  The sections of the model, with the fields that the assembler reads or writes after
  the readers have run. Fields that are only carried from the legacy files to the
  serializer (stoichiometries, compartments, efficiencies, operating costs, capacities,
  the macromolecule sections, the medium) are left out. Every enzyme and every process
  has a machinery composition and every component map a constant cost, as the loops of
  the main program take them: where the legacy file has none, it is the empty one of the
  constructor.
\<close>

record rba_species_reference =
  sr_species :: string

record rba_species =
  species_id :: string
  boundary_condition :: bool

record rba_reaction =
  reaction_id :: string
  reversible :: bool
  reactants :: "rba_species_reference list"
  products :: "rba_species_reference list"

record rba_metabolism =
  species :: "rba_species list"
  reactions :: "rba_reaction list"

record rba_machinery_composition =
  mc_reactants :: "rba_species_reference list"
  mc_products :: "rba_species_reference list"

record rba_function =
  variable :: string

record rba_enzymatic_activity =
  transporter_efficiency :: "rba_function list"

record rba_enzyme =
  enzyme_id :: string
  enzyme_machinery_composition :: rba_machinery_composition
  enzymatic_activity :: rba_enzymatic_activity

record rba_enzymes =
  enzymes :: "rba_enzyme list"

record rba_machinery =
  machinery_composition :: rba_machinery_composition

record rba_process =
  process_id :: string
  process_name :: string
  machinery :: rba_machinery
  targets :: rba_targets

record rba_constant_cost =
  cc_reactants :: "rba_species_reference list"
  cc_products :: "rba_species_reference list"

record rba_cost =
  cost_reactants :: "rba_species_reference list"
  cost_products :: "rba_species_reference list"

record rba_component_map =
  component_map_id :: string
  constant_cost :: rba_constant_cost
  costs :: "rba_cost list"

record rba_processes =
  processes :: "rba_process list"
  component_maps :: "rba_component_map list"

record rba_model =
  model_metabolism :: rba_metabolism
  model_parameters :: rba_parameters
  model_enzymes :: rba_enzymes
  model_processes :: rba_processes

text \<open>
  Modelled from the spec: the constructor \<^verbatim>\<open>rba_xml.Process(id, name)\<close> is not part of
  the sources. A new process has its id and name and empty collections: the synthesized
  process has "a single reaction-flux target", the one the assembler appends.
\<close>

definition Process :: "string \<Rightarrow> string \<Rightarrow> rba_process" where
  "Process ident name =
     \<lparr>process_id = ident, process_name = name,
      machinery = \<lparr>machinery_composition = \<lparr>mc_reactants = [], mc_products = []\<rparr>\<rparr>,
      targets = \<lparr>concentrations = [], production_fluxes = [], degradation_fluxes = [],
                 reaction_fluxes = []\<rparr>\<rparr>"


section \<open>The model assembler\<close>

text \<open>
  The patch of the enzymes' machinery compositions, run right after \<^verbatim>\<open>read_enzymes\<close>:
  \<^verbatim>\<open>
  for e in model.enzymes.enzymes:
      for sr in e.machinery_composition.reactants:
          if sr.species == 'm_siroheme': sr.species = 'm_sheme'
          elif sr.species == 'm_biotin': sr.species = 'm_bio'
          elif sr.species == 'm_b6': sr.species = 'm_py5p'
  \<close>
\<close>

definition patch_species_reference :: "rba_species_reference \<Rightarrow> rba_species_reference" where
  "patch_species_reference sr =
     (if sr_species sr = ''m_siroheme'' then sr\<lparr>sr_species := ''m_sheme''\<rparr>
      else if sr_species sr = ''m_biotin'' then sr\<lparr>sr_species := ''m_bio''\<rparr>
      else if sr_species sr = ''m_b6'' then sr\<lparr>sr_species := ''m_py5p''\<rparr>
      else sr)"

definition patch_enzymes :: "rba_enzymes \<Rightarrow> rba_enzymes" where
  "patch_enzymes enz =
     enz\<lparr>enzymes :=
       map (\<lambda>e. e\<lparr>enzyme_machinery_composition :=
                    (enzyme_machinery_composition e)\<lparr>mc_reactants :=
                       map patch_species_reference (mc_reactants (enzyme_machinery_composition e))\<rparr>\<rparr>)
         (enzymes enz)\<rparr>"

text \<open>
  The renaming pass (\<^verbatim>\<open>## adapt metabolite names\<close>), section by section. Every loop
  assigns \<^verbatim>\<open>x.species = metabolite_name(x.species)\<close> (or \<^verbatim>\<open>id\<close>,
  \<^verbatim>\<open>variable\<close>) to the elements of the collections it walks.
\<close>

definition rename_reference :: "rba_species_reference \<Rightarrow> rba_species_reference" where
  "rename_reference sr = sr\<lparr>sr_species := metabolite_name (sr_species sr)\<rparr>"

text \<open>
  \<^verbatim>\<open>
  for m in model.metabolism.species:
      m.id = metabolite_name(m.id)
  for r in model.metabolism.reactions:
      for sr in chain(r.reactants, r.products):
          sr.species = metabolite_name(sr.species)
  \<close>
\<close>

definition adapt_metabolism :: "rba_metabolism \<Rightarrow> rba_metabolism" where
  "adapt_metabolism met =
     met\<lparr>species := map (\<lambda>m. m\<lparr>species_id := metabolite_name (species_id m)\<rparr>) (species met),
         reactions := map (\<lambda>r. r\<lparr>reactants := map rename_reference (reactants r),
                                   products := map rename_reference (products r)\<rparr>)
                        (reactions met)\<rparr>"

text \<open>
  \<^verbatim>\<open>
  for e in model.enzymes.enzymes:
      for sr in e.machinery_composition.reactants:
          sr.species = metabolite_name(sr.species)
      for fn in e.enzymatic_activity.transporter_efficiency:
          fn.variable = metabolite_name(fn.variable)
  \<close>
\<close>

definition adapt_enzyme :: "rba_enzyme \<Rightarrow> rba_enzyme" where
  "adapt_enzyme e =
     e\<lparr>enzyme_machinery_composition :=
         (enzyme_machinery_composition e)\<lparr>mc_reactants :=
            map rename_reference (mc_reactants (enzyme_machinery_composition e))\<rparr>,
       enzymatic_activity :=
         (enzymatic_activity e)\<lparr>transporter_efficiency :=
            map (\<lambda>fn. fn\<lparr>variable := metabolite_name (variable fn)\<rparr>)
              (transporter_efficiency (enzymatic_activity e))\<rparr>\<rparr>"

definition adapt_enzymes :: "rba_enzymes \<Rightarrow> rba_enzymes" where
  "adapt_enzymes enz = enz\<lparr>enzymes := map adapt_enzyme (enzymes enz)\<rparr>"

text \<open>
  \<^verbatim>\<open>
  for p in model.processes.processes:
      mc = p.machinery.machinery_composition
      for sr in chain(mc.reactants, mc.products):
          sr.species = metabolite_name(sr.species)
      for t in chain(p.targets.concentrations, p.targets.production_fluxes,
                     p.targets.degradation_fluxes):
          t.species = metabolite_name(t.species)
  for m in model.processes.component_maps:
      for s in chain(m.constant_cost.reactants, m.constant_cost.products):
          s.species = metabolite_name(s.species)
      for c in m.costs:
          for s in chain(c.reactants, c.products):
              s.species = metabolite_name(s.species)
  \<close>
\<close>

definition rename_target :: "rba_target_species \<Rightarrow> rba_target_species" where
  "rename_target t = t\<lparr>ts_species := metabolite_name (ts_species t)\<rparr>"

definition adapt_process :: "rba_process \<Rightarrow> rba_process" where
  "adapt_process p =
     (let mc = machinery_composition (machinery p) in
      p\<lparr>machinery := (machinery p)\<lparr>machinery_composition :=
           mc\<lparr>mc_reactants := map rename_reference (mc_reactants mc),
              mc_products := map rename_reference (mc_products mc)\<rparr>\<rparr>,
        targets := (targets p)\<lparr>
           concentrations := map rename_target (concentrations (targets p)),
           production_fluxes := map rename_target (production_fluxes (targets p)),
           degradation_fluxes := map rename_target (degradation_fluxes (targets p))\<rparr>\<rparr>)"

definition adapt_component_map :: "rba_component_map \<Rightarrow> rba_component_map" where
  "adapt_component_map m =
     m\<lparr>constant_cost :=
         (constant_cost m)\<lparr>cc_reactants := map rename_reference (cc_reactants (constant_cost m)),
                           cc_products := map rename_reference (cc_products (constant_cost m))\<rparr>,
       costs := map (\<lambda>c. c\<lparr>cost_reactants := map rename_reference (cost_reactants c),
                            cost_products := map rename_reference (cost_products c)\<rparr>)
                  (costs m)\<rparr>"

definition adapt_processes :: "rba_processes \<Rightarrow> rba_processes" where
  "adapt_processes procs =
     procs\<lparr>processes := map adapt_process (processes procs),
           component_maps := map adapt_component_map (component_maps procs)\<rparr>"

definition adapt_metabolite_names :: "rba_model \<Rightarrow> rba_model" where
  "adapt_metabolite_names model =
     model\<lparr>model_metabolism := adapt_metabolism (model_metabolism model),
           model_enzymes := adapt_enzymes (model_enzymes model),
           model_processes := adapt_processes (model_processes model)\<rparr>"

text \<open>
  \<^verbatim>\<open>
  p_atpm = rba_xml.Process('P_maintenance_atp', 'Maintenance ATP')
  target = rba_xml.TargetReaction('Eatpm')
  target.lower_bound = 'maintenanceATP'
  p_atpm.targets.reaction_fluxes.append(target)
  model.processes.processes.append(p_atpm)
  \<close>
\<close>

definition add_maintenance_atp :: "rba_model \<Rightarrow> rba_model" where
  "add_maintenance_atp model =
     (let p_atpm = Process ''P_maintenance_atp'' ''Maintenance ATP'';
          target = (TargetReaction ''Eatpm'')\<lparr>tr_lower_bound := Some ''maintenanceATP''\<rparr>;
          p_atpm = p_atpm\<lparr>targets := (targets p_atpm)\<lparr>reaction_fluxes :=
                      reaction_fluxes (targets p_atpm) @ [target]\<rparr>\<rparr>
      in model\<lparr>model_processes := (model_processes model)\<lparr>processes :=
                  processes (model_processes model) @ [p_atpm]\<rparr>\<rparr>)"

text \<open>
  The main program, from the sections as the readers return them to the model handed to the
  serializer. \<open>met\<close>, \<open>par\<close> and \<open>enz\<close> are the results of \<^verbatim>\<open>read_metabolism\<close>,
  \<^verbatim>\<open>read_parameters\<close> and \<^verbatim>\<open>read_enzymes\<close>. \<open>read_processes_file\<close> is
  \<^verbatim>\<open>read_processes\<close> on the processes file: it takes the parameter registry, and returns
  the processes section and the registry with the aggregates it has added, or raises. The
  order is the source's: the patch of the enzymes, the processes, the renaming pass, the
  maintenance process.
\<close>

definition main :: "rba_metabolism \<Rightarrow> rba_parameters \<Rightarrow> rba_enzymes \<Rightarrow>
    (rba_parameters \<Rightarrow> error + rba_processes \<times> rba_parameters) \<Rightarrow> error + rba_model" where
  "main met par enz read_processes_file =
     (let enz' = patch_enzymes enz in
      case read_processes_file par of
        Inl e \<Rightarrow> Inl e
      | Inr (procs, par') \<Rightarrow>
          Inr (add_maintenance_atp (adapt_metabolite_names
                 \<lparr>model_metabolism = met, model_parameters = par',
                  model_enzymes = enz', model_processes = procs\<rparr>)))"


section \<open>Properties of the name normalizer\<close>

lemma upper_char_m: "upper_char CHR ''m'' = CHR ''M''"
  by (simp add: upper_char_def)

lemma startswith_m_iff: "startswith s ''m_'' \<longleftrightarrow> (\<exists>r. s = CHR ''m'' # CHR ''_'' # r)"
  by (cases s; cases "tl s") (auto simp: startswith_def)

lemma not_startswith_capital: "\<not> startswith (CHR ''M'' # r) ''m_''"
  by (simp add: startswith_def)

text \<open>
  The shape of a normalized metabolite identifier: a capital M, the rest of the stem in
  lower case, and the compartment suffix.
\<close>

lemma metabolite_name_shape:
  assumes "startswith s ''m_''"
  shows "metabolite_name s =
           (if endswith s ''_xt''
            then CHR ''M'' # map lower_char (tl (take (length s - 3) s)) @ ''_e''
            else CHR ''M'' # map lower_char (tl s) @ ''_c'')"
proof -
  from assms obtain r where s: "s = CHR ''m'' # CHR ''_'' # r"
    by (auto simp: startswith_m_iff)
  show ?thesis
  proof (cases "endswith s ''_xt''")
    case True
    then have "3 \<le> length s" by (simp add: endswith_def)
    moreover have "length s \<noteq> 3"
    proof
      assume "length s = 3"
      with True have "s = ''_xt''" by (simp add: endswith_def)
      with s show False by simp
    qed
    ultimately have "0 < length s - 3" by simp
    then obtain k where k: "length s - 3 = Suc k" by (cases "length s - 3") auto
    have "take (length s - 3) s = CHR ''m'' # take k (CHR ''_'' # r)"
      unfolding k by (simp add: s)
    with True assms show ?thesis
      by (simp add: metabolite_name_def upper_char_m)
  next
    case False
    with assms show ?thesis
      by (simp add: metabolite_name_def s upper_char_m)
  qed
qed

lemma differ_only_in_case_tl:
  "differ_only_in_case s t \<Longrightarrow> map lower_char (tl s) = map lower_char (tl t) \<and> length s = length t"
  by (cases s; cases t) (auto simp: differ_only_in_case_def dest: map_eq_imp_length_eq)

lemma map_tl_take_cong:
  assumes "map f (tl s) = map f (tl t)"
  shows "map f (tl (take n s)) = map f (tl (take n t))"
proof -
  have "map f (tl (take n s)) = take (n - 1) (map f (tl s))"
    by (simp add: tl_take take_map)
  also have "\<dots> = map f (tl (take n t))"
    by (simp add: assms tl_take take_map)
  finally show ?thesis .
qed

text \<open>
  Claim C6, as amended: the name normalizer maps \<^verbatim>\<open>m_atp\<close> to \<^verbatim>\<open>M_atp_c\<close> and
  \<^verbatim>\<open>m_glc_xt\<close> to \<^verbatim>\<open>M_glc_e\<close>: the \<^verbatim>\<open>m_\<close> prefix is kept and its first letter
  capitalized, and the suffix \<^verbatim>\<open>_c\<close> is appended or \<^verbatim>\<open>_xt\<close> replaced by
  \<^verbatim>\<open>_e\<close>.
\<close>

theorem metabolite_name_examples:
  "metabolite_name ''m_atp'' = ''M_atp_c'' \<and> metabolite_name ''m_glc_xt'' = ''M_glc_e''"
  by (simp add: metabolite_name_def startswith_def endswith_def upper_char_def lower_char_def)

text \<open>
  Claim C6 as the spec states it fails: the result for \<^verbatim>\<open>m_atp\<close> is not
  \<^verbatim>\<open>Atp_c\<close>, and the result for \<^verbatim>\<open>m_glc_xt\<close> is not \<^verbatim>\<open>Glc_e\<close>.
\<close>

theorem metabolite_name_prefix_kept:
  "metabolite_name ''m_atp'' \<noteq> ''Atp_c'' \<and> metabolite_name ''m_glc_xt'' \<noteq> ''Glc_e''"
  by (simp add: metabolite_name_def startswith_def endswith_def upper_char_def lower_char_def)

text \<open>
  Claim C7: the name normalizer is idempotent, \<open>normalize (normalize s) = normalize s\<close>
  for every identifier \<open>s\<close>, and it returns every identifier that does not start with
  \<^verbatim>\<open>m_\<close> unchanged.
\<close>

theorem metabolite_name_idempotent:
  "metabolite_name (metabolite_name s) = metabolite_name s
   \<and> (\<not> startswith s ''m_'' \<longrightarrow> metabolite_name s = s)"
proof (cases "startswith s ''m_''")
  case True
  then obtain r where "metabolite_name s = CHR ''M'' # r"
    by (cases "endswith s ''_xt''") (auto simp: metabolite_name_shape)
  then have "metabolite_name (metabolite_name s) = metabolite_name s"
    by (simp add: metabolite_name_def [of "CHR ''M'' # r"] not_startswith_capital)
  with True show ?thesis by simp
next
  case False
  then show ?thesis by (simp add: metabolite_name_def)
qed

theorem metabolite_name_idempotent_witness:
  "metabolite_name (metabolite_name ''m_glc_xt'') = metabolite_name ''m_glc_xt''
   \<and> metabolite_name ''m_glc_xt'' = ''M_glc_e''
   \<and> \<not> startswith ''Glc_e'' ''m_'' \<and> metabolite_name ''Glc_e'' = ''Glc_e''"
  using metabolite_name_idempotent [of "''m_glc_xt''"] metabolite_name_idempotent [of "''Glc_e''"]
  by (simp add: metabolite_name_def startswith_def endswith_def upper_char_def lower_char_def)

text \<open>
  Claim C10, as amended: for every ASCII identifier starting with \<^verbatim>\<open>m_\<close>, the result
  starts with a capital M and every character of the stem after the first is folded to
  lower case; \<^verbatim>\<open>m_NAD\<close> becomes \<^verbatim>\<open>M_nad_c\<close>; and two ASCII metabolite
  identifiers that differ only in letter case after the first character have the same
  result when both, or neither, end with the lower-case suffix \<^verbatim>\<open>_xt\<close>.
\<close>

theorem metabolite_name_case_folding:
  "(is_ascii s \<and> startswith s ''m_'' \<longrightarrow>
      metabolite_name s =
        (if endswith s ''_xt''
         then CHR ''M'' # map lower_char (tl (take (length s - 3) s)) @ ''_e''
         else CHR ''M'' # map lower_char (tl s) @ ''_c''))
   \<and> metabolite_name ''m_NAD'' = ''M_nad_c''
   \<and> (is_ascii s \<and> is_ascii t \<and> startswith s ''m_'' \<and> startswith t ''m_''
        \<and> differ_only_in_case s t \<and> endswith s ''_xt'' = endswith t ''_xt'' \<longrightarrow>
      metabolite_name s = metabolite_name t)"
proof (intro conjI impI)
  assume "is_ascii s \<and> startswith s ''m_''"
  then have "startswith s ''m_''" by simp
  then show "metabolite_name s =
        (if endswith s ''_xt''
         then CHR ''M'' # map lower_char (tl (take (length s - 3) s)) @ ''_e''
         else CHR ''M'' # map lower_char (tl s) @ ''_c'')"
    by (rule metabolite_name_shape)
next
  show "metabolite_name ''m_NAD'' = ''M_nad_c''"
    by (simp add: metabolite_name_def startswith_def endswith_def upper_char_def lower_char_def)
next
  assume a: "is_ascii s \<and> is_ascii t \<and> startswith s ''m_'' \<and> startswith t ''m_''
        \<and> differ_only_in_case s t \<and> endswith s ''_xt'' = endswith t ''_xt''"
  then have tl: "map lower_char (tl s) = map lower_char (tl t)" and len: "length s = length t"
    by (simp_all add: differ_only_in_case_tl)
  from tl have "map lower_char (tl (take (length s - 3) s))
      = map lower_char (tl (take (length s - 3) t))"
    by (rule map_tl_take_cong)
  with a tl len show "metabolite_name s = metabolite_name t"
    by (simp add: metabolite_name_shape)
qed

theorem metabolite_name_case_folding_witness:
  "is_ascii ''m_Glc_xt'' \<and> is_ascii ''m_gLC_xt''
   \<and> startswith ''m_Glc_xt'' ''m_'' \<and> startswith ''m_gLC_xt'' ''m_''
   \<and> differ_only_in_case ''m_Glc_xt'' ''m_gLC_xt''
   \<and> endswith ''m_Glc_xt'' ''_xt'' = endswith ''m_gLC_xt'' ''_xt''
   \<and> metabolite_name ''m_Glc_xt'' = ''M_glc_e''
   \<and> metabolite_name ''m_Glc_xt'' = metabolite_name ''m_gLC_xt''"
  using metabolite_name_case_folding [of "''m_Glc_xt''" "''m_gLC_xt''"]
  by (simp add: is_ascii_def metabolite_name_def startswith_def endswith_def
      differ_only_in_case_def upper_char_def lower_char_def)

text \<open>
  Claim C10 as the spec states it fails: \<^verbatim>\<open>m_a_xt\<close> and \<^verbatim>\<open>m_a_XT\<close> are ASCII
  metabolite identifiers that differ only in letter case after the first character, and
  their results differ, since the test for the suffix \<^verbatim>\<open>_xt\<close> is case sensitive.
\<close>

theorem metabolite_name_case_sensitive_suffix:
  "is_ascii ''m_a_xt'' \<and> is_ascii ''m_a_XT''
   \<and> startswith ''m_a_xt'' ''m_'' \<and> startswith ''m_a_XT'' ''m_''
   \<and> differ_only_in_case ''m_a_xt'' ''m_a_XT''
   \<and> metabolite_name ''m_a_xt'' = ''M_a_e''
   \<and> metabolite_name ''m_a_XT'' = ''M_a_xt_c''
   \<and> metabolite_name ''m_a_xt'' \<noteq> metabolite_name ''m_a_XT''"
  by (simp add: is_ascii_def metabolite_name_def startswith_def endswith_def
      differ_only_in_case_def upper_char_def lower_char_def)


section \<open>Properties of the value resolver\<close>

text \<open>The loop that fills the new aggregate appends one reference per element, in order.\<close>

lemma fold_append_references:
  "fold (\<lambda>ref agg. agg\<lparr>function_references :=
            function_references agg @ [FunctionReference (get ref ''function'')]\<rparr>) refs agg
   = agg\<lparr>function_references :=
         function_references agg @ map (\<lambda>ref. FunctionReference (get ref ''function'')) refs\<rparr>"
  by (induction refs arbitrary: agg) simp_all

text \<open>
  Every node without a \<^verbatim>\<open>value\<close> attribute whose number of
  \<^verbatim>\<open>functionReference\<close> children is not one reaches the aggregate branch.
\<close>

lemma read_value_aggregate:
  assumes "get node ''value'' = None"
    and "length (findall node [''functionReference'']) \<noteq> 1"
  shows "read_value node hint parameters =
           (Some hint,
            parameters\<lparr>aggregates := aggregates parameters @
              [\<lparr>aggregate_id = hint, aggregate_type = ''multiplication'',
                function_references =
                  map (\<lambda>ref. FunctionReference (get ref ''function''))
                    (findall node [''functionReference''])\<rparr>]\<rparr>)"
  using assms
  by (simp add: read_value_def Let_def fold_append_references Aggregate_def del: findall.simps)

text \<open>
  Claim C1: for a value node with no \<^verbatim>\<open>value\<close> attribute and two or more
  \<^verbatim>\<open>functionReference\<close> children, \<^verbatim>\<open>read_value\<close> returns the hint, and the
  registry after the call is the registry before it with one aggregate appended: the
  aggregate named by the hint, with operator \<^verbatim>\<open>multiplication\<close> and one function
  reference per child, in source order.
\<close>

theorem read_value_many_references:
  assumes "get node ''value'' = None"
    and "2 \<le> length (findall node [''functionReference''])"
  shows "read_value node hint parameters =
           (Some hint,
            parameters\<lparr>aggregates := aggregates parameters @
              [\<lparr>aggregate_id = hint, aggregate_type = ''multiplication'',
                function_references =
                  map (\<lambda>ref. FunctionReference (get ref ''function''))
                    (findall node [''functionReference''])\<rparr>]\<rparr>)"
  using assms by (intro read_value_aggregate) simp_all

theorem read_value_many_references_witness:
  "get (Element ''targetReaction'' [(''reaction'', ''X'')]
          [Element ''functionReference'' [(''function'', ''F1'')] [],
           Element ''note'' [] [],
           Element ''functionReference'' [(''function'', ''F2'')] []]) ''value'' = None
   \<and> length (findall (Element ''targetReaction'' [(''reaction'', ''X'')]
          [Element ''functionReference'' [(''function'', ''F1'')] [],
           Element ''note'' [] [],
           Element ''functionReference'' [(''function'', ''F2'')] []]) [''functionReference'']) = 2
   \<and> read_value (Element ''targetReaction'' [(''reaction'', ''X'')]
          [Element ''functionReference'' [(''function'', ''F1'')] [],
           Element ''note'' [] [],
           Element ''functionReference'' [(''function'', ''F2'')] []]) ''X_flux'' \<lparr>aggregates = []\<rparr>
     = (Some ''X_flux'',
        \<lparr>aggregates = [\<lparr>aggregate_id = ''X_flux'', aggregate_type = ''multiplication'',
           function_references = [FunctionReference (Some ''F1''), FunctionReference (Some ''F2'')]\<rparr>]\<rparr>)"
  using read_value_many_references [of "Element ''targetReaction'' [(''reaction'', ''X'')]
          [Element ''functionReference'' [(''function'', ''F1'')] [],
           Element ''note'' [] [],
           Element ''functionReference'' [(''function'', ''F2'')] []]" "''X_flux''" "\<lparr>aggregates = []\<rparr>"]
  by (simp add: get_def)

text \<open>
  Claim C2: for a value node with a \<^verbatim>\<open>value\<close> attribute, \<^verbatim>\<open>read_value\<close> returns
  the attribute verbatim; for a value node without it and with exactly one
  \<^verbatim>\<open>functionReference\<close> child, it returns the \<^verbatim>\<open>function\<close> attribute of the child
  verbatim (the function name \<open>f\<close> when the child carries one). In both cases the
  registry is returned as it was: no aggregate is registered.
\<close>

theorem read_value_literal_or_single:
  "(get node ''value'' = Some v \<longrightarrow> read_value node hint parameters = (Some v, parameters))
   \<and> (get node ''value'' = None \<and> findall node [''functionReference''] = [ref] \<longrightarrow>
        read_value node hint parameters = (get ref ''function'', parameters)
        \<and> (get ref ''function'' = Some f \<longrightarrow>
             read_value node hint parameters = (Some f, parameters)))"
  by (simp add: read_value_def del: findall.simps)

theorem read_value_literal_or_single_witness:
  "get (Element ''capacity'' [(''value'', ''5.0'')] []) ''value'' = Some ''5.0''
   \<and> read_value (Element ''capacity'' [(''value'', ''5.0'')] []) ''P_capacity'' \<lparr>aggregates = []\<rparr>
       = (Some ''5.0'', \<lparr>aggregates = []\<rparr>)
   \<and> get (Element ''capacity'' [] [Element ''functionReference'' [(''function'', ''F1'')] []]) ''value'' = None
   \<and> findall (Element ''capacity'' [] [Element ''functionReference'' [(''function'', ''F1'')] []])
        [''functionReference''] = [Element ''functionReference'' [(''function'', ''F1'')] []]
   \<and> get (Element ''functionReference'' [(''function'', ''F1'')] []) ''function'' = Some ''F1''
   \<and> read_value (Element ''capacity'' [] [Element ''functionReference'' [(''function'', ''F1'')] []])
        ''P_capacity'' \<lparr>aggregates = []\<rparr>
       = (Some ''F1'', \<lparr>aggregates = []\<rparr>)"
  using read_value_literal_or_single [of "Element ''capacity'' [(''value'', ''5.0'')] []" "''5.0''"
      "''P_capacity''" "\<lparr>aggregates = []\<rparr>"]
    read_value_literal_or_single [of "Element ''capacity'' [] [Element ''functionReference'' [(''function'', ''F1'')] []]"
      _ "''P_capacity''" "\<lparr>aggregates = []\<rparr>" "Element ''functionReference'' [(''function'', ''F1'')] []" "''F1''"]
  by (simp add: get_def)

text \<open>
  Claim C3, as amended: for a value node that has neither a \<^verbatim>\<open>value\<close> attribute nor
  any \<^verbatim>\<open>functionReference\<close> child, \<^verbatim>\<open>read_value\<close> raises no error: it takes the
  aggregate branch, appends to the registry an aggregate named by the hint with operator
  \<^verbatim>\<open>multiplication\<close> and no function reference, and returns the hint.
\<close>

theorem read_value_no_reference:
  assumes "get node ''value'' = None"
    and "findall node [''functionReference''] = []"
  shows "read_value node hint parameters =
           (Some hint,
            parameters\<lparr>aggregates := aggregates parameters @
              [\<lparr>aggregate_id = hint, aggregate_type = ''multiplication'',
                function_references = []\<rparr>]\<rparr>)"
  using read_value_aggregate [of node hint parameters] assms by simp

theorem read_value_no_reference_witness:
  "get (Element ''capacity'' [] []) ''value'' = None
   \<and> findall (Element ''capacity'' [] []) [''functionReference''] = []
   \<and> read_value (Element ''capacity'' [] []) ''P_capacity'' \<lparr>aggregates = []\<rparr>
       = (Some ''P_capacity'',
          \<lparr>aggregates = [\<lparr>aggregate_id = ''P_capacity'', aggregate_type = ''multiplication'',
             function_references = []\<rparr>]\<rparr>)"
  using read_value_no_reference [of "Element ''capacity'' [] []" "''P_capacity''" "\<lparr>aggregates = []\<rparr>"]
  by (simp add: get_def)

text \<open>
  Claim C3 as the spec states it fails: on the element \<^verbatim>\<open><capacity/>\<close>, which has
  neither a \<^verbatim>\<open>value\<close> attribute nor a \<^verbatim>\<open>functionReference\<close> child,
  \<^verbatim>\<open>read_value\<close> returns a result, and the aggregate collection after the call differs
  from the one before it.
\<close>

theorem read_value_malformed_node_returns:
  "get (Element ''capacity'' [] []) ''value'' = None
   \<and> findall (Element ''capacity'' [] []) [''functionReference''] = []
   \<and> fst (read_value (Element ''capacity'' [] []) ''P_capacity'' \<lparr>aggregates = []\<rparr>) = Some ''P_capacity''
   \<and> aggregates (snd (read_value (Element ''capacity'' [] []) ''P_capacity'' \<lparr>aggregates = []\<rparr>))
       \<noteq> aggregates \<lparr>aggregates = []\<rparr>"
  by (simp add: read_value_def get_def Aggregate_def)


section \<open>Properties of the target classifier\<close>

text \<open>
  Claim C4: for a \<^verbatim>\<open>targetValue\<close> node, the new target is appended to exactly one of
  the three buckets, chosen by a priority chain: to \<^verbatim>\<open>degradation_fluxes\<close> when the
  attribute \<^verbatim>\<open>degradation\<close> is \<^verbatim>\<open>1\<close>, whatever \<^verbatim>\<open>dilution_compensation\<close> is;
  otherwise to \<^verbatim>\<open>production_fluxes\<close> when \<^verbatim>\<open>dilution_compensation\<close> is
  \<^verbatim>\<open>0\<close>; otherwise, also when neither attribute is present, to
  \<^verbatim>\<open>concentrations\<close>. The other buckets are left as they were.
\<close>

theorem target_classification:
  assumes "get t ''species'' = Some sp"
    and "read_value t (sp @ ''_concentration'') parameters = (v, parameters')"
    and "new_t = \<lparr>ts_species = sp, ts_value = v, ts_lower_bound = None, ts_upper_bound = None\<rparr>"
  shows "\<exists>tg'. read_target_value t (tg, parameters) = Inr (tg', parameters')
           \<and> reaction_fluxes tg' = reaction_fluxes tg
           \<and> (get t ''degradation'' = Some ''1'' \<longrightarrow>
                degradation_fluxes tg' = degradation_fluxes tg @ [new_t]
                \<and> production_fluxes tg' = production_fluxes tg
                \<and> concentrations tg' = concentrations tg)
           \<and> (get t ''degradation'' \<noteq> Some ''1'' \<and> get t ''dilution_compensation'' = Some ''0'' \<longrightarrow>
                degradation_fluxes tg' = degradation_fluxes tg
                \<and> production_fluxes tg' = production_fluxes tg @ [new_t]
                \<and> concentrations tg' = concentrations tg)
           \<and> (get t ''degradation'' \<noteq> Some ''1'' \<and> get t ''dilution_compensation'' \<noteq> Some ''0'' \<longrightarrow>
                degradation_fluxes tg' = degradation_fluxes tg
                \<and> production_fluxes tg' = production_fluxes tg
                \<and> concentrations tg' = concentrations tg @ [new_t])"
  using assms by (auto simp add: read_target_value_def TargetSpecies_def Let_def)

theorem target_classification_witness:
  "get (Element ''targetValue''
          [(''species'', ''m_a''), (''value'', ''1''), (''degradation'', ''1''),
           (''dilution_compensation'', ''0'')] []) ''species'' = Some ''m_a''
   \<and> read_target_value
        (Element ''targetValue''
          [(''species'', ''m_a''), (''value'', ''1''), (''degradation'', ''1''),
           (''dilution_compensation'', ''0'')] [])
        (\<lparr>concentrations = [], production_fluxes = [], degradation_fluxes = [], reaction_fluxes = []\<rparr>,
         \<lparr>aggregates = []\<rparr>)
      = Inr (\<lparr>concentrations = [], production_fluxes = [],
              degradation_fluxes = [\<lparr>ts_species = ''m_a'', ts_value = Some ''1'',
                                      ts_lower_bound = None, ts_upper_bound = None\<rparr>],
              reaction_fluxes = []\<rparr>,
             \<lparr>aggregates = []\<rparr>)
   \<and> read_target_value
        (Element ''targetValue''
          [(''species'', ''m_b''), (''value'', ''2''), (''dilution_compensation'', ''0'')] [])
        (\<lparr>concentrations = [], production_fluxes = [], degradation_fluxes = [], reaction_fluxes = []\<rparr>,
         \<lparr>aggregates = []\<rparr>)
      = Inr (\<lparr>concentrations = [],
              production_fluxes = [\<lparr>ts_species = ''m_b'', ts_value = Some ''2'',
                                     ts_lower_bound = None, ts_upper_bound = None\<rparr>],
              degradation_fluxes = [], reaction_fluxes = []\<rparr>,
             \<lparr>aggregates = []\<rparr>)
   \<and> read_target_value
        (Element ''targetValue'' [(''species'', ''m_c''), (''value'', ''3'')] [])
        (\<lparr>concentrations = [], production_fluxes = [], degradation_fluxes = [], reaction_fluxes = []\<rparr>,
         \<lparr>aggregates = []\<rparr>)
      = Inr (\<lparr>concentrations = [\<lparr>ts_species = ''m_c'', ts_value = Some ''3'',
                                  ts_lower_bound = None, ts_upper_bound = None\<rparr>],
              production_fluxes = [], degradation_fluxes = [], reaction_fluxes = []\<rparr>,
             \<lparr>aggregates = []\<rparr>)"
  using
    target_classification [of "Element ''targetValue''
          [(''species'', ''m_a''), (''value'', ''1''), (''degradation'', ''1''),
           (''dilution_compensation'', ''0'')] []" "''m_a''" "\<lparr>aggregates = []\<rparr>" "Some ''1''"
        "\<lparr>aggregates = []\<rparr>"
        "\<lparr>ts_species = ''m_a'', ts_value = Some ''1'', ts_lower_bound = None, ts_upper_bound = None\<rparr>"
        "\<lparr>concentrations = [], production_fluxes = [], degradation_fluxes = [], reaction_fluxes = []\<rparr>"]
    target_classification [of "Element ''targetValue''
          [(''species'', ''m_b''), (''value'', ''2''), (''dilution_compensation'', ''0'')] []"
        "''m_b''" "\<lparr>aggregates = []\<rparr>" "Some ''2''" "\<lparr>aggregates = []\<rparr>"
        "\<lparr>ts_species = ''m_b'', ts_value = Some ''2'', ts_lower_bound = None, ts_upper_bound = None\<rparr>"
        "\<lparr>concentrations = [], production_fluxes = [], degradation_fluxes = [], reaction_fluxes = []\<rparr>"]
    target_classification [of "Element ''targetValue'' [(''species'', ''m_c''), (''value'', ''3'')] []"
        "''m_c''" "\<lparr>aggregates = []\<rparr>" "Some ''3''" "\<lparr>aggregates = []\<rparr>"
        "\<lparr>ts_species = ''m_c'', ts_value = Some ''3'', ts_lower_bound = None, ts_upper_bound = None\<rparr>"
        "\<lparr>concentrations = [], production_fluxes = [], degradation_fluxes = [], reaction_fluxes = []\<rparr>"]
  by (auto simp add: get_def read_value_def)

section \<open>Properties of the model assembler\<close>

lemma main_unfold:
  assumes "read_processes_file par = Inr (procs, par')"
  shows "main met par enz read_processes_file =
           Inr (add_maintenance_atp (adapt_metabolite_names
                  \<lparr>model_metabolism = met, model_parameters = par',
                   model_enzymes = patch_enzymes enz, model_processes = procs\<rparr>))"
  using assms by (simp add: main_def)

lemma adapt_metabolite_names_sections:
  "model_metabolism (adapt_metabolite_names m) = adapt_metabolism (model_metabolism m)"
  "model_parameters (adapt_metabolite_names m) = model_parameters m"
  "model_enzymes (adapt_metabolite_names m) = adapt_enzymes (model_enzymes m)"
  "model_processes (adapt_metabolite_names m) = adapt_processes (model_processes m)"
  by (simp_all add: adapt_metabolite_names_def)

lemma add_maintenance_atp_processes:
  "processes (model_processes (add_maintenance_atp m)) =
     processes (model_processes m) @
       [\<lparr>process_id = ''P_maintenance_atp'', process_name = ''Maintenance ATP'',
         machinery = \<lparr>machinery_composition = \<lparr>mc_reactants = [], mc_products = []\<rparr>\<rparr>,
         targets = \<lparr>concentrations = [], production_fluxes = [], degradation_fluxes = [],
                    reaction_fluxes = [\<lparr>tr_reaction = ''Eatpm'', tr_value = None,
                                         tr_lower_bound = Some ''maintenanceATP'',
                                         tr_upper_bound = None\<rparr>]\<rparr>\<rparr>]"
  by (simp add: add_maintenance_atp_def Let_def Process_def TargetReaction_def)

text \<open>
  The renaming pass walks the reactants and the products of the machinery composition of a
  process, and the reactants only of the machinery composition of an enzyme: the
  products of an enzyme's machinery composition keep their legacy identifiers.
\<close>

lemma adapt_process_products:
  "mc_products (machinery_composition (machinery (adapt_process p)))
     = map rename_reference (mc_products (machinery_composition (machinery p)))"
  by (simp add: adapt_process_def Let_def)

lemma adapt_enzyme_products:
  "mc_products (enzyme_machinery_composition (adapt_enzyme e))
     = mc_products (enzyme_machinery_composition e)"
  by (simp add: adapt_enzyme_def)

text \<open>
  Claim C5 says that after the renaming pass every species identifier of the model has been
  rewritten by the name normalizer, the species references of the enzymes' machinery
  compositions among them. The code misses one place: on a model whose enzyme \<^verbatim>\<open>E1\<close>
  has \<^verbatim>\<open>m_atp\<close> both as a reactant and as a product of its machinery composition,
  the pass rewrites the species definition and the reactant to \<^verbatim>\<open>M_atp_c\<close> and leaves
  the product \<^verbatim>\<open>m_atp\<close>, a reference to a species that no longer exists under that
  name.
\<close>

theorem enzyme_products_not_renamed:
  "adapt_metabolite_names
     \<lparr>model_metabolism = \<lparr>species = [\<lparr>species_id = ''m_atp'', boundary_condition = False\<rparr>],
                          reactions = []\<rparr>,
      model_parameters = \<lparr>aggregates = []\<rparr>,
      model_enzymes = \<lparr>enzymes =
        [\<lparr>enzyme_id = ''E1'',
          enzyme_machinery_composition =
            \<lparr>mc_reactants = [\<lparr>sr_species = ''m_atp''\<rparr>], mc_products = [\<lparr>sr_species = ''m_atp''\<rparr>]\<rparr>,
          enzymatic_activity = \<lparr>transporter_efficiency = []\<rparr>\<rparr>]\<rparr>,
      model_processes = \<lparr>processes = [], component_maps = []\<rparr>\<rparr>
   = \<lparr>model_metabolism = \<lparr>species = [\<lparr>species_id = ''M_atp_c'', boundary_condition = False\<rparr>],
                          reactions = []\<rparr>,
      model_parameters = \<lparr>aggregates = []\<rparr>,
      model_enzymes = \<lparr>enzymes =
        [\<lparr>enzyme_id = ''E1'',
          enzyme_machinery_composition =
            \<lparr>mc_reactants = [\<lparr>sr_species = ''M_atp_c''\<rparr>], mc_products = [\<lparr>sr_species = ''m_atp''\<rparr>]\<rparr>,
          enzymatic_activity = \<lparr>transporter_efficiency = []\<rparr>\<rparr>]\<rparr>,
      model_processes = \<lparr>processes = [], component_maps = []\<rparr>\<rparr>"
  by (simp add: adapt_metabolite_names_def adapt_metabolism_def adapt_enzymes_def adapt_enzyme_def
      adapt_processes_def rename_reference_def metabolite_name_def startswith_def endswith_def
      upper_char_def lower_char_def)

text \<open>
  Claim C8: the three substitutions \<^verbatim>\<open>m_siroheme\<close> to \<^verbatim>\<open>m_sheme\<close>,
  \<^verbatim>\<open>m_biotin\<close> to \<^verbatim>\<open>m_bio\<close> and \<^verbatim>\<open>m_b6\<close> to \<^verbatim>\<open>m_py5p\<close> are applied to
  every reactant of every enzyme's machinery composition, before the renaming pass (the
  reactant of the assembled model is the normalized name of the patched identifier), and
  nowhere else: the metabolism, the parameters, the processes, and the products and the
  activities of the enzymes are those of the assembly without the patch.
\<close>

theorem patch_before_normalization:
  assumes "read_processes_file par = Inr (procs, par')"
  shows "let u = add_maintenance_atp (adapt_metabolite_names
               \<lparr>model_metabolism = met, model_parameters = par',
                model_enzymes = enz, model_processes = procs\<rparr>)
         in \<exists>m. main met par enz read_processes_file = Inr m
           \<and> map (\<lambda>e. map sr_species (mc_reactants (enzyme_machinery_composition e)))
                 (enzymes (model_enzymes m))
             = map (\<lambda>e. map (\<lambda>sr. metabolite_name (sr_species (patch_species_reference sr)))
                          (mc_reactants (enzyme_machinery_composition e)))
                 (enzymes enz)
           \<and> (\<forall>sr. sr_species (patch_species_reference sr) =
                 (if sr_species sr = ''m_siroheme'' then ''m_sheme''
                  else if sr_species sr = ''m_biotin'' then ''m_bio''
                  else if sr_species sr = ''m_b6'' then ''m_py5p''
                  else sr_species sr))
           \<and> model_metabolism m = model_metabolism u
           \<and> model_parameters m = model_parameters u
           \<and> model_processes m = model_processes u
           \<and> map (\<lambda>e. (enzyme_id e, mc_products (enzyme_machinery_composition e), enzymatic_activity e))
                 (enzymes (model_enzymes m))
             = map (\<lambda>e. (enzyme_id e, mc_products (enzyme_machinery_composition e), enzymatic_activity e))
                 (enzymes (model_enzymes u))"
proof -
  have "main met par enz read_processes_file =
          Inr (add_maintenance_atp (adapt_metabolite_names
                 \<lparr>model_metabolism = met, model_parameters = par',
                  model_enzymes = patch_enzymes enz, model_processes = procs\<rparr>))"
    using assms by (rule main_unfold)
  then show ?thesis
    by (simp add: add_maintenance_atp_def Let_def
        adapt_metabolite_names_def adapt_enzymes_def adapt_enzyme_def patch_enzymes_def
        rename_reference_def patch_species_reference_def comp_def)
qed

theorem patch_before_normalization_witness:
  "(\<lambda>p. Inr (\<lparr>processes = [], component_maps = []\<rparr>, p)) \<lparr>aggregates = []\<rparr>
     = (Inr (\<lparr>processes = [], component_maps = []\<rparr>, \<lparr>aggregates = []\<rparr>)
          :: error + rba_processes \<times> rba_parameters)
   \<and> main \<lparr>species = [\<lparr>species_id = ''m_biotin'', boundary_condition = False\<rparr>], reactions = []\<rparr>
        \<lparr>aggregates = []\<rparr>
        \<lparr>enzymes = [\<lparr>enzyme_id = ''E1'',
                      enzyme_machinery_composition =
                        \<lparr>mc_reactants = [\<lparr>sr_species = ''m_biotin''\<rparr>, \<lparr>sr_species = ''m_atp''\<rparr>],
                         mc_products = [\<lparr>sr_species = ''m_b6''\<rparr>]\<rparr>,
                      enzymatic_activity = \<lparr>transporter_efficiency = [\<lparr>variable = ''m_b6''\<rparr>]\<rparr>\<rparr>]\<rparr>
        (\<lambda>p. Inr (\<lparr>processes = [], component_maps = []\<rparr>, p))
     = Inr \<lparr>model_metabolism =
              \<lparr>species = [\<lparr>species_id = ''M_biotin_c'', boundary_condition = False\<rparr>], reactions = []\<rparr>,
            model_parameters = \<lparr>aggregates = []\<rparr>,
            model_enzymes =
              \<lparr>enzymes = [\<lparr>enzyme_id = ''E1'',
                  enzyme_machinery_composition =
                    \<lparr>mc_reactants = [\<lparr>sr_species = ''M_bio_c''\<rparr>, \<lparr>sr_species = ''M_atp_c''\<rparr>],
                     mc_products = [\<lparr>sr_species = ''m_b6''\<rparr>]\<rparr>,
                  enzymatic_activity = \<lparr>transporter_efficiency = [\<lparr>variable = ''M_b6_c''\<rparr>]\<rparr>\<rparr>]\<rparr>,
            model_processes =
              \<lparr>processes =
                 [\<lparr>process_id = ''P_maintenance_atp'', process_name = ''Maintenance ATP'',
                   machinery = \<lparr>machinery_composition = \<lparr>mc_reactants = [], mc_products = []\<rparr>\<rparr>,
                   targets = \<lparr>concentrations = [], production_fluxes = [], degradation_fluxes = [],
                              reaction_fluxes = [\<lparr>tr_reaction = ''Eatpm'', tr_value = None,
                                                   tr_lower_bound = Some ''maintenanceATP'',
                                                   tr_upper_bound = None\<rparr>]\<rparr>\<rparr>],
               component_maps = []\<rparr>\<rparr>"
  using patch_before_normalization [of "\<lambda>p. Inr (\<lparr>processes = [], component_maps = []\<rparr>, p)"
      "\<lparr>aggregates = []\<rparr>" "\<lparr>processes = [], component_maps = []\<rparr>" "\<lparr>aggregates = []\<rparr>"
      "\<lparr>species = [\<lparr>species_id = ''m_biotin'', boundary_condition = False\<rparr>], reactions = []\<rparr>"
      "\<lparr>enzymes = [\<lparr>enzyme_id = ''E1'',
                      enzyme_machinery_composition =
                        \<lparr>mc_reactants = [\<lparr>sr_species = ''m_biotin''\<rparr>, \<lparr>sr_species = ''m_atp''\<rparr>],
                         mc_products = [\<lparr>sr_species = ''m_b6''\<rparr>]\<rparr>,
                      enzymatic_activity = \<lparr>transporter_efficiency = [\<lparr>variable = ''m_b6''\<rparr>]\<rparr>\<rparr>]\<rparr>"]
  by (simp add: main_def add_maintenance_atp_def Let_def Process_def TargetReaction_def
      adapt_metabolite_names_def adapt_metabolism_def adapt_enzymes_def adapt_enzyme_def
      adapt_processes_def patch_enzymes_def rename_reference_def patch_species_reference_def
      metabolite_name_def startswith_def endswith_def upper_char_def lower_char_def)

text \<open>
  Claim C9: whenever the readers succeed, the assembly succeeds, and the process list of the
  assembled model is the renamed list of the processes read, followed by one more
  process: the synthesized process with id \<^verbatim>\<open>P_maintenance_atp\<close>, whose targets are a
  single reaction-flux target on \<^verbatim>\<open>Eatpm\<close> with lower bound \<^verbatim>\<open>maintenanceATP\<close>.
  It is appended after the renaming pass, it is the last entry, and it is the only process
  the assembler adds.
\<close>

theorem maintenance_atp_appended_last:
  assumes "read_processes_file par = Inr (procs, par')"
  shows "\<exists>m. main met par enz read_processes_file = Inr m
           \<and> processes (model_processes m) =
               processes (model_processes (adapt_metabolite_names
                  \<lparr>model_metabolism = met, model_parameters = par',
                   model_enzymes = patch_enzymes enz, model_processes = procs\<rparr>)) @
                 [\<lparr>process_id = ''P_maintenance_atp'', process_name = ''Maintenance ATP'',
                   machinery = \<lparr>machinery_composition = \<lparr>mc_reactants = [], mc_products = []\<rparr>\<rparr>,
                   targets = \<lparr>concentrations = [], production_fluxes = [], degradation_fluxes = [],
                              reaction_fluxes = [\<lparr>tr_reaction = ''Eatpm'', tr_value = None,
                                                   tr_lower_bound = Some ''maintenanceATP'',
                                                   tr_upper_bound = None\<rparr>]\<rparr>\<rparr>]
           \<and> butlast (processes (model_processes m)) = map adapt_process (processes procs)
           \<and> process_id (last (processes (model_processes m))) = ''P_maintenance_atp''
           \<and> reaction_fluxes (targets (last (processes (model_processes m)))) =
               [\<lparr>tr_reaction = ''Eatpm'', tr_value = None,
                 tr_lower_bound = Some ''maintenanceATP'', tr_upper_bound = None\<rparr>]
           \<and> length (processes (model_processes m)) = length (processes procs) + 1"
proof -
  have "main met par enz read_processes_file =
          Inr (add_maintenance_atp (adapt_metabolite_names
                 \<lparr>model_metabolism = met, model_parameters = par',
                  model_enzymes = patch_enzymes enz, model_processes = procs\<rparr>))"
    using assms by (rule main_unfold)
  then show ?thesis
    by (simp add: add_maintenance_atp_processes adapt_metabolite_names_sections adapt_processes_def)
qed

theorem maintenance_atp_appended_last_witness:
  "(\<lambda>p. Inr (\<lparr>processes = [Process ''P1'' ''first''], component_maps = []\<rparr>, p)) \<lparr>aggregates = []\<rparr>
     = (Inr (\<lparr>processes = [Process ''P1'' ''first''], component_maps = []\<rparr>, \<lparr>aggregates = []\<rparr>)
          :: error + rba_processes \<times> rba_parameters)
   \<and> main \<lparr>species = [\<lparr>species_id = ''m_glc_xt'', boundary_condition = True\<rparr>], reactions = []\<rparr>
        \<lparr>aggregates = []\<rparr> \<lparr>enzymes = []\<rparr>
        (\<lambda>p. Inr (\<lparr>processes = [Process ''P1'' ''first''], component_maps = []\<rparr>, p))
     = Inr \<lparr>model_metabolism =
              \<lparr>species = [\<lparr>species_id = ''M_glc_e'', boundary_condition = True\<rparr>], reactions = []\<rparr>,
            model_parameters = \<lparr>aggregates = []\<rparr>,
            model_enzymes = \<lparr>enzymes = []\<rparr>,
            model_processes =
              \<lparr>processes =
                 [\<lparr>process_id = ''P1'', process_name = ''first'',
                   machinery = \<lparr>machinery_composition = \<lparr>mc_reactants = [], mc_products = []\<rparr>\<rparr>,
                   targets = \<lparr>concentrations = [], production_fluxes = [], degradation_fluxes = [],
                              reaction_fluxes = []\<rparr>\<rparr>,
                  \<lparr>process_id = ''P_maintenance_atp'', process_name = ''Maintenance ATP'',
                   machinery = \<lparr>machinery_composition = \<lparr>mc_reactants = [], mc_products = []\<rparr>\<rparr>,
                   targets = \<lparr>concentrations = [], production_fluxes = [], degradation_fluxes = [],
                              reaction_fluxes = [\<lparr>tr_reaction = ''Eatpm'', tr_value = None,
                                                   tr_lower_bound = Some ''maintenanceATP'',
                                                   tr_upper_bound = None\<rparr>]\<rparr>\<rparr>],
               component_maps = []\<rparr>\<rparr>"
  using maintenance_atp_appended_last [of "\<lambda>p. Inr (\<lparr>processes = [Process ''P1'' ''first''], component_maps = []\<rparr>, p)"
      "\<lparr>aggregates = []\<rparr>" "\<lparr>processes = [Process ''P1'' ''first''], component_maps = []\<rparr>" "\<lparr>aggregates = []\<rparr>"
      "\<lparr>species = [\<lparr>species_id = ''m_glc_xt'', boundary_condition = True\<rparr>], reactions = []\<rparr>"
      "\<lparr>enzymes = []\<rparr>"]
  by (simp add: main_def add_maintenance_atp_def Let_def Process_def TargetReaction_def
      adapt_metabolite_names_def adapt_metabolism_def adapt_enzymes_def adapt_process_def
      adapt_processes_def patch_enzymes_def
      metabolite_name_def startswith_def endswith_def upper_char_def lower_char_def)

end
